theory Spec2Isabelle
  imports Complex_Main
begin

section \<open>The piano: render/input surface (lib/game) and event relay (components/canvas)\<close>

text \<open>
  A shallow embedding of the \<^verbatim>\<open>Game\<close> class and of the canvas component's WebSocket
  handlers. Mutation is explicit state passing. What the code hands to its collaborators
  is recorded in traces kept in the state: the calls to the registered key callbacks
  (\<open>fired\<close>), the calls to the module-level Tone synth (\<open>synth\<close>), the delays given to
  \<^verbatim>\<open>setTimeout\<close> (\<open>timeouts\<close>) and the logger calls (\<open>logged\<close>, \<open>clog\<close>; format strings only).

  Octaves and watcher counts are whole numbers (\<open>int\<close>), sizes of the view and key
  positions are \<open>nat\<close>. The two places where the code computes with doubles have types
  of their own: the geometry of a sprite (\<open>double\<close>) and the backoff delay (\<open>number\<close>).
\<close>

subsection \<open>Template literals\<close>

definition digit_char :: "nat \<Rightarrow> char" where
  "digit_char d = ''0123456789'' ! d"

function show_nat :: "nat \<Rightarrow> string" where
  "show_nat n = (if n < 10 then [digit_char n] else show_nat (n div 10) @ [digit_char (n mod 10)])"
  by pat_completeness auto
termination
  by (relation "measure (\<lambda>n. n)") auto

declare show_nat.simps [simp del]

definition show_int :: "int \<Rightarrow> string" where
  "show_int i = (if i < 0 then CHR ''-'' # show_nat (nat (- i)) else show_nat (nat i))"

text \<open>The template literal \<^verbatim>\<open>`${key}${octave}`\<close> for a string and a whole number.\<close>

definition noteName :: "string \<Rightarrow> int \<Rightarrow> string" where
  "noteName key octave = key @ show_int octave"

subsection \<open>Constants of lib/game\<close>

text \<open>
  \<^verbatim>\<open>PIANO_KEY_COLORS = [0xe0fefe, 0xc7ceea, 0xffdac1, 0xff9aa2, 0xffffd8, 0xb5ead7]\<close>,
  written in decimal.
\<close>

definition PIANO_KEY_COLORS :: "nat list" where
  "PIANO_KEY_COLORS = [14745342, 13094634, 16767681, 16751266, 16777176, 11922135]"

definition PIANO_KEYS :: "string list" where
  "PIANO_KEYS = [''c'', ''c#'', ''d'', ''d#'', ''e'', ''f'', ''f#'', ''g'', ''g#'', ''a'', ''a#'', ''b'']"

text \<open>\<^verbatim>\<open>0xffffff\<close> and \<^verbatim>\<open>0x000000\<close>.\<close>

definition WHITE :: nat where
  "WHITE = 16777215"

definition BLACK :: nat where
  "BLACK = 0"

subsection \<open>Doubles\<close>

text \<open>
  The geometry of a sprite is computed in double arithmetic from the whole-number sizes
  of the view. A \<open>double\<close> is such a number, given by the operations of the runtime that
  produce it: \<open>DNum n\<close> is the whole number \<open>n\<close>, \<open>DDiv\<close>, \<open>DMul\<close> and \<open>DSub\<close> are the
  runtime's \<^verbatim>\<open>/\<close>, \<^verbatim>\<open>*\<close> and \<^verbatim>\<open>-\<close> on doubles. What these operations round to is the
  runtime's business; \<open>dval\<close> reads a double off under given operations on the finite
  doubles, which are real numbers.
\<close>

datatype double = DNum nat | DDiv double double | DMul double double | DSub double double

fun dval :: "(real \<Rightarrow> real \<Rightarrow> real) \<Rightarrow> (real \<Rightarrow> real \<Rightarrow> real) \<Rightarrow> (real \<Rightarrow> real \<Rightarrow> real) \<Rightarrow> double \<Rightarrow> real" where
  "dval fdiv fmul fsub (DNum n) = real n"
| "dval fdiv fmul fsub (DDiv a b) = fdiv (dval fdiv fmul fsub a) (dval fdiv fmul fsub b)"
| "dval fdiv fmul fsub (DMul a b) = fmul (dval fdiv fmul fsub a) (dval fdiv fmul fsub b)"
| "dval fdiv fmul fsub (DSub a b) = fsub (dval fdiv fmul fsub a) (dval fdiv fmul fsub b)"

text \<open>
  The backoff delay is a double that starts at 100 and is only ever set to 100 or
  multiplied by 2: a whole number that a double holds exactly, or \<^verbatim>\<open>Infinity\<close>. For a
  double \<open>x\<close>, the product \<^verbatim>\<open>x * 2\<close> is exact while \<open>x\<close> is below \<open>2 ^ 1023\<close>; from there on
  it exceeds the largest double and is \<^verbatim>\<open>Infinity\<close>.
\<close>

datatype number = Finite nat | Infinity

fun times_2 :: "number \<Rightarrow> number" where
  "times_2 (Finite x) = (if x < 2 ^ 1023 then Finite (x * 2) else Infinity)"
| "times_2 Infinity = Infinity"

subsection \<open>State of the game\<close>

record PianoSprite =
  meta_key :: string
  meta_octave :: int
  meta_playing :: bool
  meta_playingColor :: nat
  tint :: nat
  sprite_height :: double
  sprite_width :: double
  position_x :: double
  position_y :: double
  interactive :: bool
  buttonMode :: bool

datatype callback_call = KeyPlay string int | KeyStop string int

datatype synth_call = TriggerAttack string | TriggerRelease

datatype log_entry = LogInfo string | LogDebug string | LogWarn string | LogError string

text \<open>
  \<open>view_width\<close> and \<open>view_height\<close> are \<^verbatim>\<open>app.renderer.view.width/height\<close>; \<open>children\<close> is
  \<^verbatim>\<open>app.stage.children\<close>; \<open>onKeyPlay_set\<close> and \<open>onKeyStop_set\<close> say whether \<^verbatim>\<open>_onKeyPlay\<close>
  and \<^verbatim>\<open>_onKeyStop\<close> hold a callback. The callbacks themselves are opaque to the game:
  calling one appends to \<open>fired\<close>.
\<close>

record Game =
  view_width :: nat
  view_height :: nat
  keyCount :: nat
  pointerDown :: bool
  onKeyPlay_set :: bool
  onKeyStop_set :: bool
  playing :: "string list"
  children :: "PianoSprite list"
  fired :: "callback_call list"
  synth :: "synth_call list"
  logged :: "log_entry list"

subsection \<open>Playing set\<close>

text \<open>\<^verbatim>\<open>Array.prototype.indexOf\<close>: the first index holding the value, or -1.\<close>

fun indexOf :: "'a list \<Rightarrow> 'a \<Rightarrow> int" where
  "indexOf [] v = - 1"
| "indexOf (x # xs) v = (if x = v then 0 else (let r = indexOf xs v in if r < 0 then - 1 else r + 1))"

definition isPlaying :: "string \<Rightarrow> int \<Rightarrow> Game \<Rightarrow> bool" where
  "isPlaying key octave g = (indexOf (playing g) (noteName key octave) \<ge> 0)"

definition startPlaying :: "string \<Rightarrow> int \<Rightarrow> Game \<Rightarrow> Game" where
  "startPlaying key octave g =
     g\<lparr>playing := playing g @ [noteName key octave],
       synth := synth g @ [TriggerAttack (noteName key octave)]\<rparr>"

definition stopPlaying :: "string \<Rightarrow> int \<Rightarrow> Game \<Rightarrow> Game" where
  "stopPlaying key octave g =
     g\<lparr>playing := filter (\<lambda>k. k \<noteq> noteName key octave) (playing g),
       synth := synth g @ [TriggerRelease]\<rparr>"

subsection \<open>Key layout\<close>

text \<open>\<^verbatim>\<open>/\#/.test(key)\<close>\<close>

definition isBlackKey :: "string \<Rightarrow> bool" where
  "isBlackKey key = (CHR ''#'' \<in> set key)"

text \<open>
  The sprite that \<^verbatim>\<open>drawPianoKey\<close> builds, sizes and places. Its geometry is kept as the
  double operations the code performs; \<^verbatim>\<open>sprite.height\<close> in the y position is the value
  assigned to it two lines before.
\<close>

definition pianoSprite :: "string \<Rightarrow> int \<Rightarrow> nat \<Rightarrow> Game \<Rightarrow> PianoSprite" where
  "pianoSprite key octave pos g =
     (let height = DDiv (DNum (view_height g)) (DNum 2);
          width = DDiv (DNum (view_width g)) (DNum (keyCount g))
      in \<lparr>meta_key = key, meta_octave = octave, meta_playing = False,
          meta_playingColor = PIANO_KEY_COLORS ! (pos mod length PIANO_KEY_COLORS),
          tint = (if isBlackKey key then BLACK else WHITE),
          sprite_height = DMul width (DNum 8),
          sprite_width = width,
          position_x = DMul width (DNum pos),
          position_y = DSub height (DDiv (DMul width (DNum 8)) (DNum 2)),
          interactive = True,
          buttonMode = True\<rparr>)"

definition drawPianoKey :: "string \<Rightarrow> int \<Rightarrow> nat \<Rightarrow> Game \<Rightarrow> Game" where
  "drawPianoKey key octave pos g = g\<lparr>children := children g @ [pianoSprite key octave pos g]\<rparr>"

function createPianoKeys_from :: "nat \<Rightarrow> Game \<Rightarrow> Game" where
  "createPianoKeys_from i g =
     (let totalKeys = length PIANO_KEYS in
      if i < keyCount g
      then createPianoKeys_from (i + 1)
             (drawPianoKey (PIANO_KEYS ! (i mod totalKeys)) (int (i div totalKeys) + 1) i g)
      else g)"
  by pat_completeness auto
termination
  by (relation "measure (\<lambda>(i, g). keyCount g - i)") (auto simp: drawPianoKey_def)

declare createPianoKeys_from.simps [simp del]

definition createPianoKeys :: "Game \<Rightarrow> Game" where
  "createPianoKeys g = createPianoKeys_from 0 g"

text \<open>
  The constructor on a view of the given size: the field initialisers (\<open>keyCount = 52\<close>,
  \<open>pointerDown = false\<close>, \<open>playing = []\<close>, no callbacks), an empty stage, then
  \<^verbatim>\<open>createPianoKeys()\<close>.
\<close>

definition new_Game :: "nat \<Rightarrow> nat \<Rightarrow> Game" where
  "new_Game w h =
     createPianoKeys
       \<lparr>view_width = w, view_height = h, keyCount = 52, pointerDown = False,
        onKeyPlay_set = False, onKeyStop_set = False, playing = [], children = [],
        fired = [], synth = [], logged = []\<rparr>"

definition onKeyPlay :: "Game \<Rightarrow> Game" where
  "onKeyPlay g = g\<lparr>onKeyPlay_set := True\<rparr>"

definition onKeyStop :: "Game \<Rightarrow> Game" where
  "onKeyStop g = g\<lparr>onKeyStop_set := True\<rparr>"

subsection \<open>Pointer handlers\<close>

text \<open>The stage's own \<^verbatim>\<open>pointerdown\<close> and \<^verbatim>\<open>pointerup\<close> listeners.\<close>

definition stage_pointerdown :: "Game \<Rightarrow> Game" where
  "stage_pointerdown g = g\<lparr>pointerDown := True\<rparr>"

definition stage_pointerup :: "Game \<Rightarrow> Game" where
  "stage_pointerup g = g\<lparr>pointerDown := False\<rparr>"

text \<open>The sprite listeners; the argument is \<^verbatim>\<open>event.currentTarget\<close>.\<close>

definition onPointerDown :: "PianoSprite \<Rightarrow> Game \<Rightarrow> Game" where
  "onPointerDown sprite g =
     (if \<not> isPlaying (meta_key sprite) (meta_octave sprite) g
      then (let g1 = g\<lparr>logged := logged g @ [LogInfo ''key down %s%d'']\<rparr>
            in if onKeyPlay_set g1
               then g1\<lparr>fired := fired g1 @ [KeyPlay (meta_key sprite) (meta_octave sprite)]\<rparr>
               else g1)
      else g)"

definition onPointerUp :: "PianoSprite \<Rightarrow> Game \<Rightarrow> Game" where
  "onPointerUp sprite g =
     (if isPlaying (meta_key sprite) (meta_octave sprite) g
      then (let g1 = g\<lparr>logged := logged g @ [LogInfo ''key up %s%d'']\<rparr>
            in if onKeyStop_set g1
               then g1\<lparr>fired := fired g1 @ [KeyStop (meta_key sprite) (meta_octave sprite)]\<rparr>
               else g1)
      else g)"

definition onPointerOver :: "PianoSprite \<Rightarrow> Game \<Rightarrow> Game" where
  "onPointerOver sprite g =
     (if pointerDown g \<and> \<not> isPlaying (meta_key sprite) (meta_octave sprite) g
      then (let g1 = g\<lparr>logged := logged g @ [LogInfo ''key over %s%d'']\<rparr>
            in if onKeyPlay_set g1
               then g1\<lparr>fired := fired g1 @ [KeyPlay (meta_key sprite) (meta_octave sprite)]\<rparr>
               else g1)
      else g)"

subsection \<open>Render pass\<close>

text \<open>The body of the loop of \<^verbatim>\<open>render\<close>, for one sprite.\<close>

definition render_sprite :: "Game \<Rightarrow> PianoSprite \<Rightarrow> PianoSprite" where
  "render_sprite g sprite =
     (if isPlaying (meta_key sprite) (meta_octave sprite) g
      then sprite\<lparr>tint := meta_playingColor sprite\<rparr>
      else sprite\<lparr>tint := (if \<not> isBlackKey (meta_key sprite) then WHITE else BLACK)\<rparr>)"

function render_from :: "nat \<Rightarrow> nat \<Rightarrow> Game \<Rightarrow> Game" where
  "render_from i len g =
     (if i < len
      then render_from (i + 1) len (g\<lparr>children := (children g)[i := render_sprite g (children g ! i)]\<rparr>)
      else g)"
  by pat_completeness auto
termination
  by (relation "measure (\<lambda>(i, len, g). len - i)") auto

declare render_from.simps [simp del]

definition render :: "Game \<Rightarrow> Game" where
  "render g = render_from 0 (length (children g)) g"

subsection \<open>Events on the wire (lib/ws)\<close>

text \<open>
  \<^verbatim>\<open>IGameEvent\<close> is \<^verbatim>\<open>{ type, message }\<close> with \<^verbatim>\<open>type\<close> one of \<^verbatim>\<open>Play\<close>, \<^verbatim>\<open>Stop\<close>, \<^verbatim>\<open>Watchers\<close>;
  the message is \<^verbatim>\<open>{ key, octave }\<close> for the first two and a number for the third.
  Values of other shapes are not values of this type.
\<close>

datatype IGameEvent = Play string int | Stop string int | Watchers int

subsection \<open>State of the canvas component\<close>

datatype readyState = CONNECTING | OPEN | CLOSING | CLOSED

text \<open>
  \<open>wsRef\<close> holds the current WebSocket, represented by its \<^verbatim>\<open>readyState\<close>; \<open>timeouts\<close>
  lists the delay arguments passed to \<^verbatim>\<open>setTimeout\<close>, oldest first (what the runtime
  makes of a delay is not part of the component).
\<close>

record Canvas =
  appRef :: "Game option"
  wsRef :: "readyState option"
  watchers :: int
  reconnectBackoff :: number
  timeouts :: "number list"
  clog :: "log_entry list"

text \<open>The refs and state as the hooks create them: \<^verbatim>\<open>useState(1)\<close>, \<^verbatim>\<open>useRef(100)\<close>.\<close>

definition Canvas_init :: Canvas where
  "Canvas_init =
     \<lparr>appRef = None, wsRef = None, watchers = 1, reconnectBackoff = Finite 100,
      timeouts = [],
      clog = []\<rparr>"

subsection \<open>WebSocket handlers\<close>

definition initWs :: "Canvas \<Rightarrow> Canvas" where
  "initWs c =
     c\<lparr>clog := clog c @ [LogInfo ''initializing websocket connection to %s''],
       wsRef := Some CONNECTING\<rparr>"

definition onopen :: "Canvas \<Rightarrow> Canvas" where
  "onopen c =
     c\<lparr>clog := clog c @ [LogInfo ''websocket connection opened''],
       reconnectBackoff := Finite 100\<rparr>"

definition onclose :: "Canvas \<Rightarrow> Canvas" where
  "onclose c =
     c\<lparr>clog := clog c @ [LogInfo ''websocket connection closed''],
       timeouts := timeouts c @ [reconnectBackoff c]\<rparr>"

text \<open>The function given to \<^verbatim>\<open>setTimeout\<close> in \<^verbatim>\<open>onclose\<close>.\<close>

definition reconnect :: "Canvas \<Rightarrow> Canvas" where
  "reconnect c =
     (let c1 = initWs (c\<lparr>clog := clog c @ [LogInfo ''attempting to reconnect'']\<rparr>)
      in c1\<lparr>reconnectBackoff := times_2 (reconnectBackoff c1)\<rparr>)"

datatype exn = SyntaxError

text \<open>
  The \<^verbatim>\<open>try\<close> block of \<^verbatim>\<open>onmessage\<close>. \<^verbatim>\<open>JSON.parse\<close> belongs to the runtime and is a
  parameter: \<open>None\<close> is its \<^verbatim>\<open>SyntaxError\<close>. \<^verbatim>\<open>appRef.current?.f(..)\<close> does nothing when
  there is no game.
\<close>

definition onmessage_try :: "(string \<Rightarrow> IGameEvent option) \<Rightarrow> string \<Rightarrow> Canvas \<Rightarrow> exn + Canvas" where
  "onmessage_try JSON_parse data c =
     (case JSON_parse data of
        None \<Rightarrow> Inl SyntaxError
      | Some (Play key octave) \<Rightarrow> Inr (c\<lparr>appRef := map_option (startPlaying key octave) (appRef c)\<rparr>)
      | Some (Stop key octave) \<Rightarrow> Inr (c\<lparr>appRef := map_option (stopPlaying key octave) (appRef c)\<rparr>)
      | Some (Watchers message) \<Rightarrow> Inr (c\<lparr>watchers := message\<rparr>))"

definition onmessage :: "(string \<Rightarrow> IGameEvent option) \<Rightarrow> string \<Rightarrow> Canvas \<Rightarrow> Canvas" where
  "onmessage JSON_parse data c =
     (let c1 = c\<lparr>clog := clog c @ [LogInfo ''websocket message received'', LogDebug data]\<rparr>
      in case onmessage_try JSON_parse data c1 of
           Inl error \<Rightarrow> c1\<lparr>clog := clog c1 @ [LogError ''problem parsing websocket message: %s'']\<rparr>
         | Inr c2 \<Rightarrow> c2)"

subsection \<open>Mounting\<close>

text \<open>
  What \<^verbatim>\<open>initApp\<close> finds: the dynamic import fails, there is no canvas element,
  the constructor throws, or a canvas of some size.
\<close>

datatype surface = ImportError | NoCanvas | InitError | View nat nat

definition initApp :: "surface \<Rightarrow> Canvas \<Rightarrow> Canvas" where
  "initApp sf c =
     (if appRef c \<noteq> None
      then c\<lparr>clog := clog c @ [LogWarn ''canvas already initialized'']\<rparr>
      else
        (let c1 =
               (case sf of
                  ImportError \<Rightarrow> c\<lparr>clog := clog c @ [LogError ''problem initializing canvas: %s'']\<rparr>
                | NoCanvas \<Rightarrow> c\<lparr>clog := clog c @ [LogInfo ''initializing canvas'']\<rparr>
                | InitError \<Rightarrow>
                    c\<lparr>clog := clog c @ [LogInfo ''initializing canvas'',
                                         LogError ''problem initializing canvas: %s'']\<rparr>
                | View w h \<Rightarrow>
                    c\<lparr>clog := clog c @ [LogInfo ''initializing canvas''],
                      appRef := Some (new_Game w h)\<rparr>);
             c2 = initWs c1
         in c2\<lparr>appRef := map_option (\<lambda>g. onKeyStop (onKeyPlay g)) (appRef c2)\<rparr>))"

definition mount :: "surface \<Rightarrow> Canvas" where
  "mount sf = initApp sf (Canvas_init\<lparr>clog := [LogInfo ''mounting canvas'']\<rparr>)"

subsection \<open>Operations of the running component\<close>

text \<open>
  What the browser delivers after mounting: pointer events on the sprite at an index
  of the stage (\<^verbatim>\<open>pointerup\<close>, \<^verbatim>\<open>pointerupoutside\<close> and \<^verbatim>\<open>pointerout\<close> share one
  listener), pointer events on the stage, a ticker frame, the socket's \<^verbatim>\<open>open\<close>,
  \<^verbatim>\<open>close\<close> and \<^verbatim>\<open>message\<close> events, and the expiry of a reconnect timer.
\<close>

datatype event =
    SpritePointerDown nat
  | SpritePointerUp nat
  | SpritePointerOver nat
  | StagePointerDown
  | StagePointerUp
  | Tick
  | WsOpen
  | WsClose
  | TimerFired
  | WsMessage string

definition on_app :: "(Game \<Rightarrow> Game) \<Rightarrow> Canvas \<Rightarrow> Canvas" where
  "on_app f c = c\<lparr>appRef := map_option f (appRef c)\<rparr>"

definition at_sprite :: "(PianoSprite \<Rightarrow> Game \<Rightarrow> Game) \<Rightarrow> nat \<Rightarrow> Game \<Rightarrow> Game" where
  "at_sprite handler i g = (if i < length (children g) then handler (children g ! i) g else g)"

fun step :: "(string \<Rightarrow> IGameEvent option) \<Rightarrow> event \<Rightarrow> Canvas \<Rightarrow> Canvas" where
  "step JSON_parse (SpritePointerDown i) c = on_app (at_sprite onPointerDown i) c"
| "step JSON_parse (SpritePointerUp i) c = on_app (at_sprite onPointerUp i) c"
| "step JSON_parse (SpritePointerOver i) c = on_app (at_sprite onPointerOver i) c"
| "step JSON_parse StagePointerDown c = on_app stage_pointerdown c"
| "step JSON_parse StagePointerUp c = on_app stage_pointerup c"
| "step JSON_parse Tick c = on_app render c"
| "step JSON_parse WsOpen c = onopen (c\<lparr>wsRef := Some OPEN\<rparr>)"
| "step JSON_parse WsClose c = onclose (c\<lparr>wsRef := Some CLOSED\<rparr>)"
| "step JSON_parse TimerFired c = reconnect c"
| "step JSON_parse (WsMessage data) c = onmessage JSON_parse data c"

fun run :: "(string \<Rightarrow> IGameEvent option) \<Rightarrow> event list \<Rightarrow> Canvas \<Rightarrow> Canvas" where
  "run JSON_parse [] c = c"
| "run JSON_parse (e # es) c = run JSON_parse es (step JSON_parse e c)"

section \<open>Properties\<close>

subsection \<open>Auxiliary facts\<close>

lemma indexOf_nonneg_iff: "0 \<le> indexOf xs v \<longleftrightarrow> v \<in> set xs"
  by (induction xs) (auto simp: Let_def)

lemma isPlaying_iff: "isPlaying key octave g \<longleftrightarrow> noteName key octave \<in> set (playing g)"
  by (simp add: isPlaying_def indexOf_nonneg_iff)

lemma show_nat_digit: "n < 10 \<Longrightarrow> show_nat n = [digit_char n]"
  by (subst show_nat.simps) simp

lemma noteName_digit: "0 \<le> n \<Longrightarrow> n < 10 \<Longrightarrow> noteName key n = key @ [digit_char (nat n)]"
  by (simp add: noteName_def show_int_def show_nat_digit)

lemma noteName_c1: "noteName ''c'' 1 = ''c1''"
  by (simp add: noteName_digit digit_char_def)

lemma filter_absent: "x \<notin> set xs \<Longrightarrow> filter (\<lambda>k. k \<noteq> x) xs = xs"
  by (induction xs) auto

lemma pointer_playing [simp]:
  "playing (onPointerDown s g) = playing g"
  "playing (onPointerUp s g) = playing g"
  "playing (onPointerOver s g) = playing g"
  by (simp_all add: onPointerDown_def onPointerUp_def onPointerOver_def Let_def)

lemma at_sprite_playing:
  "(\<And>s g. playing (h s g) = playing g) \<Longrightarrow> playing (at_sprite h i g) = playing g"
  by (simp add: at_sprite_def)

text \<open>The layout loop appends one sprite per position from \<open>i\<close> up to \<open>keyCount\<close>.\<close>

lemma pianoSprite_children [simp]:
  "pianoSprite key octave pos (g\<lparr>children := cs\<rparr>) = pianoSprite key octave pos g"
  by (simp add: pianoSprite_def)

lemma createPianoKeys_from_eq:
  "createPianoKeys_from i g =
     g\<lparr>children := children g @
          map (\<lambda>j. pianoSprite (PIANO_KEYS ! (j mod 12)) (int (j div 12) + 1) j g) [i..<keyCount g]\<rparr>"
proof (induction i g rule: createPianoKeys_from.induct)
  case (1 i g)
  let ?sp = "\<lambda>j. pianoSprite (PIANO_KEYS ! (j mod 12)) (int (j div 12) + 1) j g"
  have len: "length PIANO_KEYS = 12"
    by (simp add: PIANO_KEYS_def)
  show ?case
  proof (cases "i < keyCount g")
    case True
    let ?g' = "drawPianoKey (PIANO_KEYS ! (i mod 12)) (int (i div 12) + 1) i g"
    have g': "?g' = g\<lparr>children := children g @ [?sp i]\<rparr>"
      by (simp add: drawPianoKey_def)
    have "createPianoKeys_from i g = createPianoKeys_from (i + 1) ?g'"
      using True by (subst createPianoKeys_from.simps) (simp add: len)
    also have "\<dots> = ?g'\<lparr>children := children ?g' @
          map (\<lambda>j. pianoSprite (PIANO_KEYS ! (j mod 12)) (int (j div 12) + 1) j ?g') [i + 1..<keyCount ?g']\<rparr>"
      using "1.IH"[OF refl True] by (simp add: len)
    also have "\<dots> = g\<lparr>children := children g @ map ?sp [i..<keyCount g]\<rparr>"
      using True by (simp add: g' upt_conv_Cons)
    finally show ?thesis .
  next
    case False
    then show ?thesis
      by (subst createPianoKeys_from.simps) simp
  qed
qed

lemma createPianoKeys_eq:
  "createPianoKeys g =
     g\<lparr>children := children g @
          map (\<lambda>j. pianoSprite (PIANO_KEYS ! (j mod 12)) (int (j div 12) + 1) j g) [0..<keyCount g]\<rparr>"
  by (simp add: createPianoKeys_def createPianoKeys_from_eq)

lemma new_Game_eq:
  "new_Game w h =
     \<lparr>view_width = w, view_height = h, keyCount = 52, pointerDown = False,
      onKeyPlay_set = False, onKeyStop_set = False, playing = [],
      children = map (\<lambda>j. pianoSprite (PIANO_KEYS ! (j mod 12)) (int (j div 12) + 1) j
                   \<lparr>view_width = w, view_height = h, keyCount = 52, pointerDown = False,
                    onKeyPlay_set = False, onKeyStop_set = False, playing = [], children = [],
                    fired = [], synth = [], logged = []\<rparr>) [0..<52],
      fired = [], synth = [], logged = []\<rparr>"
  by (simp add: new_Game_def createPianoKeys_eq)

text \<open>The render loop rewrites the sprites from \<open>i\<close> up to \<open>len\<close> and nothing else.\<close>

lemma render_sprite_children [simp]: "render_sprite (g\<lparr>children := cs\<rparr>) = render_sprite g"
  by (simp add: render_sprite_def isPlaying_def fun_eq_iff)

lemma render_from_eq:
  "len \<le> length (children g) \<Longrightarrow>
   render_from i len g =
     g\<lparr>children := take i (children g) @ map (render_sprite g) (drop i (take len (children g)))
                    @ drop (max i len) (children g)\<rparr>"
proof (induction i len g rule: render_from.induct)
  case (1 i len g)
  show ?case
  proof (cases "i < len")
    case True
    let ?cs = "children g"
    let ?g' = "g\<lparr>children := ?cs[i := render_sprite g (?cs ! i)]\<rparr>"
    have il: "i < length ?cs" using True "1.prems" by simp
    have "render_from i len g = render_from (i + 1) len ?g'"
      using True by (subst render_from.simps) simp
    also have "\<dots> = ?g'\<lparr>children := take (i + 1) (children ?g') @
           map (render_sprite ?g') (drop (i + 1) (take len (children ?g'))) @ drop (max (i + 1) len) (children ?g')\<rparr>"
      using "1.IH"[OF True] "1.prems" by simp
    also have "\<dots> = g\<lparr>children := take i ?cs @ map (render_sprite g) (drop i (take len ?cs)) @ drop (max i len) ?cs\<rparr>"
    proof -
      let ?u = "?cs[i := render_sprite g (?cs ! i)]"
      have a: "take (Suc i) ?u = take i ?cs @ [render_sprite g (?cs ! i)]"
        using il by (simp add: take_Suc_conv_app_nth)
      have b: "drop (Suc i) (take len ?u) = drop (Suc i) (take len ?cs)"
        by (simp add: drop_take)
      have c: "drop i (take len ?cs) = ?cs ! i # drop (Suc i) (take len ?cs)"
        using il True Cons_nth_drop_Suc[of i "take len ?cs"] by simp
      have d: "drop (max (Suc i) len) ?u = drop (max i len) ?cs"
        using True by (simp add: max_def)
      have "take (Suc i) ?u @ map (render_sprite g) (drop (Suc i) (take len ?u)) @ drop (max (Suc i) len) ?u
          = take i ?cs @ map (render_sprite g) (drop i (take len ?cs)) @ drop (max i len) ?cs"
        unfolding a b c d by simp
      then show ?thesis by simp
    qed
    finally show ?thesis .
  next
    case False
    then have "take i (children g) @ map (render_sprite g) (drop i (take len (children g)))
        @ drop (max i len) (children g) = children g"
      by (simp add: max_def)
    with False show ?thesis
      by (subst render_from.simps) simp
  qed
qed

lemma render_eq: "render g = g\<lparr>children := map (render_sprite g) (children g)\<rparr>"
  by (simp add: render_def render_from_eq)

text \<open>The component as mounted.\<close>

lemma mount_fields:
  "watchers (mount sf) = 1" "reconnectBackoff (mount sf) = Finite 100" "timeouts (mount sf) = []"
  by (simp_all add: mount_def initApp_def Canvas_init_def initWs_def Let_def split: surface.splits)

subsection \<open>C1: press and release without remote events\<close>

text \<open>
  C1 (amended). The pointer handlers never change the playing set: only \<^verbatim>\<open>startPlaying\<close>
  and \<^verbatim>\<open>stopPlaying\<close> do, and the component calls them on inbound messages alone. With
  both callbacks registered, \<^verbatim>\<open>onPointerDown(k)\<close> followed by \<^verbatim>\<open>onPointerUp(k)\<close>, with
  nothing in between, leaves the playing set as it was and fires exactly one callback
  for \<open>k\<close>: the play callback when \<open>k\<close> was not playing (the stop callback does not fire),
  the stop callback when \<open>k\<close> was playing (the play callback does not fire).
\<close>

theorem press_release:
  assumes "onKeyPlay_set g" and "onKeyStop_set g"
  shows "playing (onPointerUp k (onPointerDown k g)) = playing g
       \<and> fired (onPointerUp k (onPointerDown k g)) =
           fired g @ (if isPlaying (meta_key k) (meta_octave k) g
                      then [KeyStop (meta_key k) (meta_octave k)]
                      else [KeyPlay (meta_key k) (meta_octave k)])"
  using assms by (simp add: onPointerDown_def onPointerUp_def isPlaying_def)

text \<open>C1, witness: the first key of a fresh game with both callbacks registered.\<close>

theorem press_release_witness:
  "playing (onPointerUp (children (new_Game 1040 600) ! 0)
            (onPointerDown (children (new_Game 1040 600) ! 0)
               (onKeyStop (onKeyPlay (new_Game 1040 600))))) = []
   \<and> fired (onPointerUp (children (new_Game 1040 600) ! 0)
            (onPointerDown (children (new_Game 1040 600) ! 0)
               (onKeyStop (onKeyPlay (new_Game 1040 600))))) = [KeyPlay ''c'' 1]"
  using press_release [of "onKeyStop (onKeyPlay (new_Game 1040 600))" "children (new_Game 1040 600) ! 0"]
  by (simp add: new_Game_eq onKeyPlay_def onKeyStop_def isPlaying_def pianoSprite_def Let_def PIANO_KEYS_def)

text \<open>
  C1 as stated asks for one play callback and one stop callback. On a fresh game with
  both callbacks registered, pressing and releasing the first key \<open>c1\<close> fires the play
  callback and nothing else: the stop callback is called zero times, not once.
\<close>

theorem press_release_counterexample:
  "fired (onPointerUp (children (new_Game 1040 600) ! 0)
            (onPointerDown (children (new_Game 1040 600) ! 0)
               (onKeyStop (onKeyPlay (new_Game 1040 600))))) = [KeyPlay ''c'' 1]
   \<and> count_list (fired (onPointerUp (children (new_Game 1040 600) ! 0)
            (onPointerDown (children (new_Game 1040 600) ! 0)
               (onKeyStop (onKeyPlay (new_Game 1040 600)))))) (KeyStop ''c'' 1) \<noteq> 1"
  by (simp add: new_Game_eq onKeyPlay_def onKeyStop_def onPointerDown_def onPointerUp_def
      isPlaying_def pianoSprite_def Let_def PIANO_KEYS_def)

text \<open>
  With the echo of the server in between (an inbound Play after the press, an inbound
  Stop after the release) both callbacks fire once and the key leaves the playing set.
\<close>

lemma press_echo_release:
  assumes "onKeyPlay_set g" and "onKeyStop_set g"
    and "\<not> isPlaying (meta_key k) (meta_octave k) g"
  shows "fired (stopPlaying (meta_key k) (meta_octave k)
                 (onPointerUp k (startPlaying (meta_key k) (meta_octave k) (onPointerDown k g))))
           = fired g @ [KeyPlay (meta_key k) (meta_octave k), KeyStop (meta_key k) (meta_octave k)]
       \<and> playing (stopPlaying (meta_key k) (meta_octave k)
                 (onPointerUp k (startPlaying (meta_key k) (meta_octave k) (onPointerDown k g))))
           = playing g"
proof -
  have "noteName (meta_key k) (meta_octave k) \<notin> set (playing g)"
    using assms(3) by (simp add: isPlaying_iff)
  then show ?thesis
    using assms
    by (simp add: onPointerDown_def onPointerUp_def startPlaying_def stopPlaying_def
        isPlaying_iff filter_absent)
qed

subsection \<open>C2: the playing set\<close>

text \<open>Every operation but an inbound Play of a key that is already playing keeps the
  entries of the playing set distinct.\<close>

lemma step_distinct:
  assumes "appRef c = Some g" and "distinct (playing g)"
    and "\<And>data key octave. e = WsMessage data \<Longrightarrow> JSON_parse data = Some (Play key octave)
           \<Longrightarrow> \<not> isPlaying key octave g"
  shows "\<exists>g'. appRef (step JSON_parse e c) = Some g' \<and> distinct (playing g')"
proof (cases e)
  case (WsMessage data)
  show ?thesis
  proof (cases "JSON_parse data")
    case None
    with WsMessage assms(1,2) show ?thesis
      by (simp add: onmessage_def onmessage_try_def Let_def)
  next
    case (Some ev)
    show ?thesis
    proof (cases ev)
      case (Play key octave)
      with assms(3)[OF WsMessage] Some have "noteName key octave \<notin> set (playing g)"
        by (simp add: isPlaying_iff)
      with WsMessage Some Play assms(1,2) show ?thesis
        by (simp add: onmessage_def onmessage_try_def Let_def startPlaying_def)
    next
      case (Stop key octave)
      with WsMessage Some assms(1,2) show ?thesis
        by (simp add: onmessage_def onmessage_try_def Let_def stopPlaying_def)
    next
      case (Watchers n)
      with WsMessage Some assms(1,2) show ?thesis
        by (simp add: onmessage_def onmessage_try_def Let_def)
    qed
  qed
qed (simp_all add: assms(1,2) on_app_def at_sprite_playing stage_pointerdown_def
       stage_pointerup_def render_eq onopen_def onclose_def reconnect_def initWs_def Let_def)

text \<open>
  C2 (amended). \<^verbatim>\<open>stopPlaying(k, o)\<close> removes every occurrence of the key identity and
  keeps the other entries, so it preserves distinctness. \<^verbatim>\<open>startPlaying(k, o)\<close> appends
  without looking: its result has distinct entries exactly when the set had and the key
  was not in it. Hence every operation of the running component (pointer handlers,
  render tick, socket open and close, reconnect timer, inbound message) keeps the entries
  distinct, except an inbound Play for a key that is already playing.
\<close>

theorem playing_set_invariant:
  "noteName key octave \<notin> set (playing (stopPlaying key octave g))
   \<and> (distinct (playing g) \<longrightarrow> distinct (playing (stopPlaying key octave g)))
   \<and> (distinct (playing (startPlaying key octave g)) \<longleftrightarrow>
        distinct (playing g) \<and> \<not> isPlaying key octave g)
   \<and> (appRef c = Some g \<and> distinct (playing g)
        \<and> (\<forall>data k n. e = WsMessage data \<and> JSON_parse data = Some (Play k n) \<longrightarrow> \<not> isPlaying k n g)
        \<longrightarrow> (\<exists>g'. appRef (step JSON_parse e c) = Some g' \<and> distinct (playing g')))"
proof -
  have 1: "noteName key octave \<notin> set (playing (stopPlaying key octave g))"
    by (simp add: stopPlaying_def)
  have 2: "distinct (playing g) \<longrightarrow> distinct (playing (stopPlaying key octave g))"
    by (simp add: stopPlaying_def)
  have 3: "distinct (playing (startPlaying key octave g)) \<longleftrightarrow>
        distinct (playing g) \<and> \<not> isPlaying key octave g"
    by (auto simp: startPlaying_def isPlaying_iff)
  have 4: "appRef c = Some g \<and> distinct (playing g)
        \<and> (\<forall>data k n. e = WsMessage data \<and> JSON_parse data = Some (Play k n) \<longrightarrow> \<not> isPlaying k n g)
        \<longrightarrow> (\<exists>g'. appRef (step JSON_parse e c) = Some g' \<and> distinct (playing g'))"
    using step_distinct[of c g e JSON_parse] by blast
  from 1 2 3 4 show ?thesis by blast
qed

text \<open>
  C2, witness: Stop removes both entries of a doubled key; on a fresh game Stop and a
  first Play keep the entries distinct, also through the message handler of the mounted
  component.
\<close>

theorem playing_set_invariant_witness:
  "noteName ''c'' 1 \<notin> set (playing (stopPlaying ''c'' 1 (startPlaying ''c'' 1 (startPlaying ''c'' 1 (new_Game 1040 600)))))
   \<and> distinct (playing (stopPlaying ''c'' 1 (new_Game 1040 600)))
   \<and> distinct (playing (startPlaying ''c'' 1 (new_Game 1040 600)))
   \<and> (\<exists>g'. appRef (step (\<lambda>d. Some (Play ''c'' 1)) (WsMessage ''m'') (mount (View 1040 600))) = Some g'
          \<and> distinct (playing g'))"
  using playing_set_invariant [of "''c''" 1 "startPlaying ''c'' 1 (startPlaying ''c'' 1 (new_Game 1040 600))"]
    playing_set_invariant [of "''c''" 1 "new_Game 1040 600"
      "mount (View 1040 600)" "WsMessage ''m''" "\<lambda>d. Some (Play ''c'' 1)"]
    playing_set_invariant [of "''c''" 1 "onKeyStop (onKeyPlay (new_Game 1040 600))"
      "mount (View 1040 600)" "WsMessage ''m''" "\<lambda>d. Some (Play ''c'' 1)"]
  by (simp add: new_Game_eq isPlaying_def mount_def initApp_def Canvas_init_def initWs_def
      onKeyPlay_def onKeyStop_def)

text \<open>
  C2 as stated has every operation keep each key identity at most once in the playing
  set. Two Play events for \<open>c1\<close> on a fresh game, whose playing set is empty, leave \<open>c1\<close>
  in it twice.
\<close>

theorem playing_set_counterexample:
  "distinct (playing (new_Game 1040 600))
   \<and> playing (startPlaying ''c'' 1 (startPlaying ''c'' 1 (new_Game 1040 600))) = [''c1'', ''c1'']
   \<and> \<not> distinct (playing (startPlaying ''c'' 1 (startPlaying ''c'' 1 (new_Game 1040 600))))
   \<and> map_option playing
        (appRef (run (\<lambda>d. Some (Play ''c'' 1)) [WsMessage ''m'', WsMessage ''m''] (mount (View 1040 600))))
       = Some [''c1'', ''c1'']"
  by (simp add: startPlaying_def new_Game_eq noteName_c1 mount_def initApp_def Canvas_init_def
      initWs_def onKeyPlay_def onKeyStop_def onmessage_def onmessage_try_def)

subsection \<open>C3: reconnect backoff\<close>

text \<open>Repeated doubling from 100: exact for the first 1017 doublings, \<^verbatim>\<open>Infinity\<close> after.\<close>

lemma below_overflow: "i \<le> 1016 \<Longrightarrow> (100::nat) * 2 ^ i < 2 ^ 1023"
proof -
  assume "i \<le> 1016"
  then have "(2::nat) ^ i \<le> 2 ^ 1016"
    by (intro power_increasing) simp_all
  then have "(100::nat) * 2 ^ i \<le> 100 * 2 ^ 1016"
    by simp
  also have "\<dots> < 2 ^ 1023"
    by simp
  finally show ?thesis .
qed

lemma times_2_exact: "i \<le> 1017 \<Longrightarrow> (times_2 ^^ i) (Finite 100) = Finite (100 * 2 ^ i)"
proof (induction i)
  case 0
  then show ?case by simp
next
  case (Suc i)
  then have i: "i \<le> 1016" and ih: "(times_2 ^^ i) (Finite 100) = Finite (100 * 2 ^ i)"
    by simp_all
  have "(times_2 ^^ Suc i) (Finite 100) = times_2 (Finite (100 * 2 ^ i))"
    by (simp only: funpow.simps o_apply ih)
  also have "\<dots> = Finite (100 * 2 ^ i * 2)"
    using below_overflow[OF i] by (simp only: times_2.simps if_True)
  also have "\<dots> = Finite (100 * 2 ^ Suc i)"
    by simp
  finally show ?case .
qed

lemma times_2_Infinity: "(times_2 ^^ k) Infinity = Infinity"
  by (induction k) simp_all

lemma times_2_overflow: "1017 < n \<Longrightarrow> (times_2 ^^ n) (Finite 100) = Infinity"
proof -
  assume "1017 < n"
  then obtain k where n: "n = k + Suc 1017"
    by (metis Suc_leI le_Suc_ex add.commute)
  have "(times_2 ^^ Suc 1017) (Finite 100) = times_2 (Finite (100 * 2 ^ 1017))"
    by (simp only: funpow.simps o_apply times_2_exact[OF order_refl])
  also have "\<dots> = Infinity"
    by simp
  finally have ov: "(times_2 ^^ Suc 1017) (Finite 100) = Infinity" .
  show ?thesis
    unfolding n funpow_add o_apply ov times_2_Infinity ..
qed

text \<open>A failed attempt is the expiry of the reconnect timer followed by the close of the
  socket it opened.\<close>

lemma failed_attempts:
  "timeouts (run p (concat (replicate n [TimerFired, WsClose])) c) =
     timeouts c @ map (\<lambda>i. (times_2 ^^ Suc i) (reconnectBackoff c)) [0..<n]"
proof (induction n arbitrary: c)
  case 0
  then show ?case by simp
next
  case (Suc n)
  let ?c' = "step p WsClose (step p TimerFired c)"
  have b: "reconnectBackoff ?c' = times_2 (reconnectBackoff c)"
    by (simp add: onclose_def reconnect_def initWs_def Let_def)
  have t: "timeouts ?c' = timeouts c @ [times_2 (reconnectBackoff c)]"
    by (simp add: onclose_def reconnect_def initWs_def Let_def)
  have "timeouts (run p (concat (replicate (Suc n) [TimerFired, WsClose])) c)
      = timeouts (run p (concat (replicate n [TimerFired, WsClose])) ?c')"
    by simp
  also have "\<dots> = timeouts ?c' @ map (\<lambda>i. (times_2 ^^ Suc i) (reconnectBackoff ?c')) [0..<n]"
    by (rule Suc.IH)
  also have "\<dots> = timeouts c @ map (\<lambda>i. (times_2 ^^ Suc i) (reconnectBackoff c)) [0..<Suc n]"
    unfolding b t by (simp add: map_upt_Suc funpow_swap1 del: upt_Suc)
  finally show ?case .
qed

lemma close_then_failed_attempts:
  "timeouts (run p (WsClose # concat (replicate n [TimerFired, WsClose])) c) =
     timeouts c @ map (\<lambda>i. (times_2 ^^ i) (reconnectBackoff c)) [0..<Suc n]"
proof -
  let ?c' = "step p WsClose c"
  have "timeouts (run p (WsClose # concat (replicate n [TimerFired, WsClose])) c)
      = timeouts ?c' @ map (\<lambda>i. (times_2 ^^ Suc i) (reconnectBackoff ?c')) [0..<n]"
    by (simp add: failed_attempts)
  also have "\<dots> = timeouts c @ map (\<lambda>i. (times_2 ^^ i) (reconnectBackoff c)) [0..<Suc n]"
    by (simp add: onclose_def map_upt_Suc del: upt_Suc funpow.simps)
  finally show ?thesis .
qed

lemma doubling_delays:
  assumes "n \<le> 1017"
  shows "map (\<lambda>i. (times_2 ^^ i) (Finite 100)) [0..<Suc n] = map (\<lambda>i. Finite (100 * 2 ^ i)) [0..<Suc n]"
proof (rule map_cong[OF refl])
  fix x
  assume "x \<in> set [0..<Suc n]"
  then have "x \<le> n" by auto
  with assms have "x \<le> 1017" by simp
  then show "(times_2 ^^ x) (Finite 100) = Finite (100 * 2 ^ x)"
    by (rule times_2_exact)
qed

text \<open>
  C3. The delay is a double. After mounting, a close followed by \<open>n\<close> failed attempts
  passes to \<^verbatim>\<open>setTimeout\<close> the delays \<open>100, 200, 400, \<dots>, 100 * 2 ^ n\<close>, in this order, for
  every \<open>n\<close> up to 1017: the first reconnect 100 ms after the close, each later one after
  twice the previous delay. An open sets the backoff to 100 at once, in any state, so
  the same sequence follows the next close. In any state and for every \<open>n\<close>, each delay
  is the previous one times 2 in double arithmetic, and the code puts no cap on it:
  beyond 1017 failed attempts in a row the product has left the range of the doubles and
  the delay passed is \<^verbatim>\<open>Infinity\<close>.
\<close>

theorem backoff_sequence:
  "(n \<le> 1017 \<longrightarrow>
      timeouts (run p (WsClose # concat (replicate n [TimerFired, WsClose])) (mount sf))
        = map (\<lambda>i. Finite (100 * 2 ^ i)) [0..<Suc n])
   \<and> reconnectBackoff (step p WsOpen c) = Finite 100
   \<and> (n \<le> 1017 \<longrightarrow>
      timeouts (run p (WsOpen # WsClose # concat (replicate n [TimerFired, WsClose])) c)
        = timeouts c @ map (\<lambda>i. Finite (100 * 2 ^ i)) [0..<Suc n])
   \<and> timeouts (run p (WsClose # concat (replicate n [TimerFired, WsClose])) c)
        = timeouts c @ map (\<lambda>i. (times_2 ^^ i) (reconnectBackoff c)) [0..<Suc n]
   \<and> (1017 < n \<longrightarrow>
      last (timeouts (run p (WsClose # concat (replicate n [TimerFired, WsClose])) (mount sf)))
        = Infinity)"
proof -
  have m: "timeouts (run p (WsClose # concat (replicate n [TimerFired, WsClose])) (mount sf))
     = map (\<lambda>i. (times_2 ^^ i) (Finite 100)) [0..<Suc n]"
    by (simp only: close_then_failed_attempts mount_fields append_Nil)
  have 1: "n \<le> 1017 \<longrightarrow>
      timeouts (run p (WsClose # concat (replicate n [TimerFired, WsClose])) (mount sf))
        = map (\<lambda>i. Finite (100 * 2 ^ i)) [0..<Suc n]"
    unfolding m using doubling_delays[of n] by blast
  have 2: "reconnectBackoff (step p WsOpen c) = Finite 100"
    by (simp add: onopen_def)
  have "timeouts (run p (WsOpen # WsClose # concat (replicate n [TimerFired, WsClose])) c)
     = timeouts (run p (WsClose # concat (replicate n [TimerFired, WsClose])) (step p WsOpen c))"
    by simp
  also have "\<dots> = timeouts (step p WsOpen c) @ map (\<lambda>i. (times_2 ^^ i) (Finite 100)) [0..<Suc n]"
    by (simp only: close_then_failed_attempts 2)
  also have "timeouts (step p WsOpen c) = timeouts c"
    by (simp add: onopen_def)
  finally have o: "timeouts (run p (WsOpen # WsClose # concat (replicate n [TimerFired, WsClose])) c)
        = timeouts c @ map (\<lambda>i. (times_2 ^^ i) (Finite 100)) [0..<Suc n]" .
  have 3: "n \<le> 1017 \<longrightarrow>
      timeouts (run p (WsOpen # WsClose # concat (replicate n [TimerFired, WsClose])) c)
        = timeouts c @ map (\<lambda>i. Finite (100 * 2 ^ i)) [0..<Suc n]"
    unfolding o using doubling_delays[of n] by simp
  have 4: "timeouts (run p (WsClose # concat (replicate n [TimerFired, WsClose])) c)
        = timeouts c @ map (\<lambda>i. (times_2 ^^ i) (reconnectBackoff c)) [0..<Suc n]"
    by (rule close_then_failed_attempts)
  have 5: "1017 < n \<longrightarrow>
      last (timeouts (run p (WsClose # concat (replicate n [TimerFired, WsClose])) (mount sf)))
        = Infinity"
    unfolding m by (simp add: times_2_overflow del: funpow.simps)
  from 1 2 3 4 5 show ?thesis by blast
qed

text \<open>
  C3, witness: a close and three failed attempts; after two scheduled delays, an open,
  a close and one failed attempt; and the delay after 1018 failed attempts.
\<close>

theorem backoff_sequence_witness:
  "timeouts (run (\<lambda>d. None) [WsClose, TimerFired, WsClose, TimerFired, WsClose, TimerFired, WsClose]
      (mount (View 1040 600))) = [Finite 100, Finite 200, Finite 400, Finite 800]
   \<and> timeouts (run (\<lambda>d. None) [WsOpen, WsClose, TimerFired, WsClose]
      (run (\<lambda>d. None) [WsClose, TimerFired, WsClose, TimerFired] (mount (View 1040 600))))
       = [Finite 100, Finite 200, Finite 100, Finite 200]
   \<and> last (timeouts (run (\<lambda>d. None) (WsClose # concat (replicate 1018 [TimerFired, WsClose]))
      (mount (View 1040 600)))) = Infinity"
proof -
  have e3: "concat (replicate 3 [TimerFired, WsClose]) = [TimerFired, WsClose, TimerFired, WsClose, TimerFired, WsClose]"
    by (simp add: eval_nat_numeral)
  have e1: "concat (replicate 1 [TimerFired, WsClose]) = [TimerFired, WsClose]"
    by simp
  have t: "timeouts (run (\<lambda>d. None) [WsClose, TimerFired, WsClose, TimerFired] (mount (View 1040 600)))
      = [Finite 100, Finite 200]"
    by (simp add: mount_fields onclose_def reconnect_def initWs_def Let_def)
  have a: "timeouts (run (\<lambda>d. None) [WsClose, TimerFired, WsClose, TimerFired, WsClose, TimerFired, WsClose]
      (mount (View 1040 600))) = [Finite 100, Finite 200, Finite 400, Finite 800]"
    using backoff_sequence [of 3 "\<lambda>d. None" "View 1040 600"
        "run (\<lambda>d. None) [WsClose, TimerFired, WsClose, TimerFired] (mount (View 1040 600))"]
    unfolding e3 by (simp add: eval_nat_numeral del: run.simps)
  have b: "timeouts (run (\<lambda>d. None) [WsOpen, WsClose, TimerFired, WsClose]
      (run (\<lambda>d. None) [WsClose, TimerFired, WsClose, TimerFired] (mount (View 1040 600))))
       = [Finite 100, Finite 200, Finite 100, Finite 200]"
    using backoff_sequence [of 1 "\<lambda>d. None" "View 1040 600"
        "run (\<lambda>d. None) [WsClose, TimerFired, WsClose, TimerFired] (mount (View 1040 600))"]
    unfolding e1 t by (simp del: run.simps)
  have c: "last (timeouts (run (\<lambda>d. None) (WsClose # concat (replicate 1018 [TimerFired, WsClose]))
      (mount (View 1040 600)))) = Infinity"
  proof -
    have "1017 < (1018::nat)" by simp
    with backoff_sequence [of 1018 "\<lambda>d. None" "View 1040 600" "mount (View 1040 600)"]
    show ?thesis by blast
  qed
  from a b c show ?thesis by blast
qed

subsection \<open>C4: pressing a key\<close>

text \<open>
  C4. With a play callback registered, \<^verbatim>\<open>onPointerDown(k)\<close> calls it, once and for \<open>k\<close>,
  if and only if \<open>k\<close> is not in the playing set; for a key that is already playing it
  changes nothing at all.
\<close>

theorem pointer_down_idempotent:
  assumes "onKeyPlay_set g"
  shows "fired (onPointerDown k g) =
           fired g @ (if isPlaying (meta_key k) (meta_octave k) g then []
                      else [KeyPlay (meta_key k) (meta_octave k)])
       \<and> onPointerDown k g =
           (if isPlaying (meta_key k) (meta_octave k) g then g
            else g\<lparr>logged := logged g @ [LogInfo ''key down %s%d''],
                   fired := fired g @ [KeyPlay (meta_key k) (meta_octave k)]\<rparr>)"
  using assms by (simp add: onPointerDown_def)

text \<open>C4, witness: the first key, once while \<open>c1\<close> is playing and once on a fresh game.\<close>

theorem pointer_down_idempotent_witness:
  "fired (onPointerDown (children (new_Game 1040 600) ! 0)
            (onKeyStop (onKeyPlay (startPlaying ''c'' 1 (new_Game 1040 600))))) = []
   \<and> fired (onPointerDown (children (new_Game 1040 600) ! 0)
            (onKeyStop (onKeyPlay (new_Game 1040 600)))) = [KeyPlay ''c'' 1]"
  using pointer_down_idempotent [of "onKeyStop (onKeyPlay (startPlaying ''c'' 1 (new_Game 1040 600)))"
      "children (new_Game 1040 600) ! 0"]
    pointer_down_idempotent [of "onKeyStop (onKeyPlay (new_Game 1040 600))"
      "children (new_Game 1040 600) ! 0"]
  by (simp add: new_Game_eq onKeyPlay_def onKeyStop_def startPlaying_def isPlaying_def
      pianoSprite_def Let_def PIANO_KEYS_def)

subsection \<open>C5: Stop for a key that is not playing\<close>

text \<open>
  C5 (amended). A Stop for a key identity that is not in the playing set raises nothing
  and leaves the playing set and every other field of the game unchanged, but it is not
  without effect: \<^verbatim>\<open>stopPlaying\<close> calls \<^verbatim>\<open>synth.triggerRelease()\<close> whether or not the key was
  playing. Received as a message by a component that has a game, it changes only the
  synth trace of the game and the component's log.
\<close>

theorem stop_not_playing:
  assumes "\<not> isPlaying key octave g"
  shows "stopPlaying key octave g = g\<lparr>synth := synth g @ [TriggerRelease]\<rparr>
       \<and> playing (stopPlaying key octave g) = playing g
       \<and> (JSON_parse data = Some (Stop key octave) \<and> appRef c = Some g \<longrightarrow>
            onmessage JSON_parse data c =
              c\<lparr>clog := clog c @ [LogInfo ''websocket message received'', LogDebug data],
                appRef := Some (g\<lparr>synth := synth g @ [TriggerRelease]\<rparr>)\<rparr>)"
  using assms
  by (simp add: stopPlaying_def isPlaying_iff filter_absent onmessage_def onmessage_try_def Let_def)

text \<open>C5, witness: Stop for \<open>c1\<close> on a fresh game, directly and as a message.\<close>

theorem stop_not_playing_witness:
  "stopPlaying ''c'' 1 (new_Game 1040 600) = (new_Game 1040 600)\<lparr>synth := [TriggerRelease]\<rparr>
   \<and> playing (stopPlaying ''c'' 1 (new_Game 1040 600)) = []
   \<and> appRef (onmessage (\<lambda>d. Some (Stop ''c'' 1)) ''m'' (mount (View 1040 600)))
       = Some ((onKeyStop (onKeyPlay (new_Game 1040 600)))\<lparr>synth := [TriggerRelease]\<rparr>)"
  using stop_not_playing [of "''c''" 1 "new_Game 1040 600"]
    stop_not_playing [of "''c''" 1 "onKeyStop (onKeyPlay (new_Game 1040 600))"
      "\<lambda>d. Some (Stop ''c'' 1)" "''m''" "mount (View 1040 600)"]
  by (simp add: new_Game_eq isPlaying_def mount_def initApp_def Canvas_init_def initWs_def
      onKeyPlay_def onKeyStop_def)

text \<open>
  C5 as stated makes the Stop a no-op. While \<open>d1\<close> is playing, a Stop for \<open>c1\<close>, which is
  not playing, changes the state: \<open>d1\<close> stays in the playing set and the synth is told
  to release.
\<close>

theorem stop_not_playing_counterexample:
  "\<not> isPlaying ''c'' 1 (startPlaying ''d'' 1 (new_Game 1040 600))
   \<and> stopPlaying ''c'' 1 (startPlaying ''d'' 1 (new_Game 1040 600)) \<noteq> startPlaying ''d'' 1 (new_Game 1040 600)
   \<and> playing (stopPlaying ''c'' 1 (startPlaying ''d'' 1 (new_Game 1040 600))) = [''d1'']
   \<and> synth (startPlaying ''d'' 1 (new_Game 1040 600)) = [TriggerAttack ''d1'']
   \<and> synth (stopPlaying ''c'' 1 (startPlaying ''d'' 1 (new_Game 1040 600))) = [TriggerAttack ''d1'', TriggerRelease]"
proof -
  have n: "noteName ''c'' 1 = ''c1''" "noteName ''d'' 1 = ''d1''"
    by (simp_all add: noteName_digit digit_char_def)
  have "synth (stopPlaying ''c'' 1 (startPlaying ''d'' 1 (new_Game 1040 600)))
      \<noteq> synth (startPlaying ''d'' 1 (new_Game 1040 600))"
    by (simp add: stopPlaying_def)
  then have "stopPlaying ''c'' 1 (startPlaying ''d'' 1 (new_Game 1040 600)) \<noteq> startPlaying ''d'' 1 (new_Game 1040 600)"
    by metis
  then show ?thesis
    by (simp add: isPlaying_iff n stopPlaying_def startPlaying_def new_Game_eq)
qed

subsection \<open>C6: malformed inbound payload\<close>

text \<open>
  C6. When \<^verbatim>\<open>JSON.parse\<close> fails on the payload, the \<^verbatim>\<open>SyntaxError\<close> of the \<^verbatim>\<open>try\<close> block is
  caught: the handler returns normally, having only appended its three log lines (the
  last one the error). The game with its playing set, the watcher count, the socket and
  its state, the backoff delay and the scheduled timers are as before.
\<close>

theorem malformed_dropped:
  assumes "JSON_parse data = None"
  shows "onmessage_try JSON_parse data c = Inl SyntaxError
       \<and> onmessage JSON_parse data c =
           c\<lparr>clog := clog c @ [LogInfo ''websocket message received'', LogDebug data,
                               LogError ''problem parsing websocket message: %s'']\<rparr>
       \<and> appRef (onmessage JSON_parse data c) = appRef c
       \<and> watchers (onmessage JSON_parse data c) = watchers c
       \<and> wsRef (onmessage JSON_parse data c) = wsRef c
       \<and> reconnectBackoff (onmessage JSON_parse data c) = reconnectBackoff c
       \<and> timeouts (onmessage JSON_parse data c) = timeouts c"
  using assms by (simp add: onmessage_def onmessage_try_def Let_def)

text \<open>C6, witness: a payload that does not parse, on the mounted component.\<close>

theorem malformed_dropped_witness:
  "appRef (onmessage (\<lambda>d. None) ''not json'' (mount (View 1040 600))) = appRef (mount (View 1040 600))
   \<and> watchers (onmessage (\<lambda>d. None) ''not json'' (mount (View 1040 600))) = 1
   \<and> wsRef (onmessage (\<lambda>d. None) ''not json'' (mount (View 1040 600))) = Some CONNECTING"
  using malformed_dropped [of "\<lambda>d. None" "''not json''" "mount (View 1040 600)"]
  by (simp add: mount_fields) (simp add: mount_def initApp_def Canvas_init_def initWs_def)

subsection \<open>C7: key layout\<close>

text \<open>
  C7. On an empty stage \<^verbatim>\<open>createPianoKeys\<close> adds \<open>keyCount\<close> sprites (52 in a new game).
  The sprite at index \<open>i\<close> has the pitch class at \<open>i mod 12\<close> of the twelve \<^verbatim>\<open>PIANO_KEYS\<close>,
  the octave \<open>i div 12 + 1\<close>, and the active tint at \<open>i\<close> modulo the palette length of
  \<^verbatim>\<open>PIANO_KEY_COLORS\<close>. Every key has the same width, the double \<^verbatim>\<open>view.width / keyCount\<close>,
  and the x position of key \<open>i\<close> is the double \<^verbatim>\<open>width * i\<close>. Whenever that division and
  that multiplication are exact, the x position is \<open>i\<close> times the view width over
  \<open>keyCount\<close> and \<open>keyCount\<close> keys of that width fill the view width exactly.
\<close>

theorem layout:
  assumes "children g = []" and "i < keyCount g"
  shows "length (children (createPianoKeys g)) = keyCount g
       \<and> meta_key (children (createPianoKeys g) ! i) = PIANO_KEYS ! (i mod 12)
       \<and> meta_octave (children (createPianoKeys g) ! i) = int (i div 12) + 1
       \<and> sprite_width (children (createPianoKeys g) ! i) = DDiv (DNum (view_width g)) (DNum (keyCount g))
       \<and> position_x (children (createPianoKeys g) ! i)
           = DMul (DDiv (DNum (view_width g)) (DNum (keyCount g))) (DNum i)
       \<and> (fdiv (real (view_width g)) (real (keyCount g)) = real (view_width g) / real (keyCount g)
          \<and> fmul (real (view_width g) / real (keyCount g)) (real i)
              = real (view_width g) / real (keyCount g) * real i
          \<longrightarrow> dval fdiv fmul fsub (position_x (children (createPianoKeys g) ! i))
                = real i * (real (view_width g) / real (keyCount g))
            \<and> dval fdiv fmul fsub (sprite_width (children (createPianoKeys g) ! i))
                = real (view_width g) / real (keyCount g)
            \<and> real (keyCount g) * dval fdiv fmul fsub (sprite_width (children (createPianoKeys g) ! i))
                = real (view_width g))
       \<and> meta_playingColor (children (createPianoKeys g) ! i) = PIANO_KEY_COLORS ! (i mod length PIANO_KEY_COLORS)
       \<and> length PIANO_KEYS = 12 \<and> keyCount (new_Game w h) = 52"
  using assms
  by (simp add: createPianoKeys_eq pianoSprite_def Let_def new_Game_def PIANO_KEYS_def)

text \<open>
  C7, witness: the key at index 37 of a new game on a view 1040 wide is \<open>c#4\<close>; the
  quotient 1040 / 52 and the product 20 * 37 are whole numbers.
\<close>

theorem layout_witness:
  "length (children (new_Game 1040 600)) = 52
   \<and> meta_key (children (new_Game 1040 600) ! 37) = ''c#''
   \<and> meta_octave (children (new_Game 1040 600) ! 37) = 4
   \<and> sprite_width (children (new_Game 1040 600) ! 37) = DDiv (DNum 1040) (DNum 52)
   \<and> position_x (children (new_Game 1040 600) ! 37) = DMul (DDiv (DNum 1040) (DNum 52)) (DNum 37)
   \<and> dval (/) (*) (-) (position_x (children (new_Game 1040 600) ! 37)) = 740
   \<and> dval (/) (*) (-) (sprite_width (children (new_Game 1040 600) ! 37)) = 20
   \<and> meta_playingColor (children (new_Game 1040 600) ! 37) = 13094634"
  using layout [of "\<lparr>view_width = 1040, view_height = 600, keyCount = 52, pointerDown = False,
        onKeyPlay_set = False, onKeyStop_set = False, playing = [], children = [],
        fired = [], synth = [], logged = []\<rparr>" 37 "(/)" "(*)" "(-)"]
  by (simp add: new_Game_def PIANO_KEYS_def PIANO_KEY_COLORS_def)

subsection \<open>C8: render pass\<close>

text \<open>
  C8. A render tick keeps the sprites and their key identities and sets the tint of
  every sprite: to its \<^verbatim>\<open>playingColor\<close> if its key identity is in the playing set, else to
  black if its pitch class contains \<open>#\<close> and to white if it does not.
\<close>

theorem render_tint:
  assumes "i < length (children g)"
  shows "length (children (render g)) = length (children g)
       \<and> meta_key (children (render g) ! i) = meta_key (children g ! i)
       \<and> meta_octave (children (render g) ! i) = meta_octave (children g ! i)
       \<and> tint (children (render g) ! i) =
           (if isPlaying (meta_key (children g ! i)) (meta_octave (children g ! i)) g
            then meta_playingColor (children g ! i)
            else if CHR ''#'' \<in> set (meta_key (children g ! i)) then BLACK else WHITE)"
  using assms by (simp add: render_eq render_sprite_def isBlackKey_def)

text \<open>
  C8, witness: while \<open>c#4\<close> plays, its key (index 37) has its palette colour and the
  \<open>c4\<close> key beside it is white; after the Stop the \<open>c#4\<close> key is black.
\<close>

theorem render_tint_witness:
  "tint (children (render (startPlaying ''c#'' 4 (new_Game 1040 600))) ! 37) = 13094634
   \<and> tint (children (render (stopPlaying ''c#'' 4 (startPlaying ''c#'' 4 (new_Game 1040 600)))) ! 37) = 0
   \<and> tint (children (render (startPlaying ''c#'' 4 (new_Game 1040 600))) ! 36) = 16777215"
  using render_tint [of 37 "startPlaying ''c#'' 4 (new_Game 1040 600)"]
    render_tint [of 37 "stopPlaying ''c#'' 4 (startPlaying ''c#'' 4 (new_Game 1040 600))"]
    render_tint [of 36 "startPlaying ''c#'' 4 (new_Game 1040 600)"]
  by (simp add: new_Game_eq startPlaying_def stopPlaying_def isPlaying_def noteName_digit
      digit_char_def pianoSprite_def Let_def PIANO_KEYS_def PIANO_KEY_COLORS_def BLACK_def WHITE_def)

subsection \<open>C9: sliding over a key\<close>

text \<open>
  C9. With a play callback registered, \<^verbatim>\<open>onPointerOver(k)\<close> calls it, once and for \<open>k\<close>,
  if and only if the \<^verbatim>\<open>pointerDown\<close> flag is set and \<open>k\<close> is not in the playing set;
  otherwise no callback is called. The stage sets the flag on \<^verbatim>\<open>pointerdown\<close> and clears
  it on \<^verbatim>\<open>pointerup\<close>.
\<close>

theorem pointer_over_slide:
  assumes "onKeyPlay_set g"
  shows "fired (onPointerOver k g) =
           fired g @ (if pointerDown g \<and> \<not> isPlaying (meta_key k) (meta_octave k) g
                      then [KeyPlay (meta_key k) (meta_octave k)] else [])
       \<and> pointerDown (stage_pointerdown g) \<and> \<not> pointerDown (stage_pointerup g)"
  using assms by (simp add: onPointerOver_def stage_pointerdown_def stage_pointerup_def)

text \<open>
  C9, witness: over the first key with the pointer held, with the pointer released,
  and with the pointer held while \<open>c1\<close> is playing.
\<close>

theorem pointer_over_slide_witness:
  "fired (onPointerOver (children (new_Game 1040 600) ! 0)
            (stage_pointerdown (onKeyStop (onKeyPlay (new_Game 1040 600))))) = [KeyPlay ''c'' 1]
   \<and> fired (onPointerOver (children (new_Game 1040 600) ! 0)
            (stage_pointerup (stage_pointerdown (onKeyStop (onKeyPlay (new_Game 1040 600)))))) = []
   \<and> fired (onPointerOver (children (new_Game 1040 600) ! 0)
            (stage_pointerdown (onKeyStop (onKeyPlay (startPlaying ''c'' 1 (new_Game 1040 600)))))) = []"
  using pointer_over_slide [of "stage_pointerdown (onKeyStop (onKeyPlay (new_Game 1040 600)))"
      "children (new_Game 1040 600) ! 0"]
    pointer_over_slide [of "stage_pointerup (stage_pointerdown (onKeyStop (onKeyPlay (new_Game 1040 600))))"
      "children (new_Game 1040 600) ! 0"]
    pointer_over_slide [of "stage_pointerdown (onKeyStop (onKeyPlay (startPlaying ''c'' 1 (new_Game 1040 600))))"
      "children (new_Game 1040 600) ! 0"]
  by (simp add: new_Game_eq onKeyPlay_def onKeyStop_def startPlaying_def isPlaying_def
      stage_pointerdown_def stage_pointerup_def pianoSprite_def Let_def PIANO_KEYS_def)

subsection \<open>C10: the watcher count before any Watchers event\<close>

lemma watchers_step:
  assumes "\<And>d n. e = WsMessage d \<Longrightarrow> JSON_parse d \<noteq> Some (Watchers n)"
  shows "watchers (step JSON_parse e c) = watchers c"
proof (cases e)
  case (WsMessage d)
  with assms[of d] show ?thesis
    by (auto simp: onmessage_def onmessage_try_def Let_def split: option.splits IGameEvent.splits)
qed (simp_all add: on_app_def onopen_def onclose_def reconnect_def initWs_def Let_def)

lemma watchers_run:
  "(\<And>d n. WsMessage d \<in> set es \<Longrightarrow> JSON_parse d \<noteq> Some (Watchers n)) \<Longrightarrow>
   watchers (run JSON_parse es c) = watchers c"
proof (induction es arbitrary: c)
  case Nil
  then show ?case by simp
next
  case (Cons e es)
  have "watchers (step JSON_parse e c) = watchers c"
    using Cons.prems by (intro watchers_step) simp
  moreover have "watchers (run JSON_parse es (step JSON_parse e c)) = watchers (step JSON_parse e c)"
    using Cons.prems by (intro Cons.IH) simp
  ultimately show ?case by simp
qed

text \<open>
  C10. The watcher count is 1 when the component is created and when it has mounted,
  and it is still 1 after any sequence of operations (pointer events, render ticks,
  socket open and close, reconnect timers, inbound messages) in which no inbound
  message is a Watchers event.
\<close>

theorem watchers_initially_one:
  assumes "\<forall>d n. WsMessage d \<in> set es \<longrightarrow> JSON_parse d \<noteq> Some (Watchers n)"
  shows "watchers Canvas_init = 1 \<and> watchers (mount sf) = 1
       \<and> watchers (run JSON_parse es (mount sf)) = 1"
proof -
  have "watchers (run JSON_parse es (mount sf)) = watchers (mount sf)"
    using assms by (intro watchers_run) simp
  then show ?thesis
    by (simp add: mount_fields Canvas_init_def)
qed

text \<open>
  C10, witness: a press, the echoed Play, a tick, the release, the echoed Stop, a
  payload that does not parse, a close, a reconnect and an open.
\<close>

theorem watchers_initially_one_witness:
  "watchers (run (\<lambda>d. if d = ''p'' then Some (Play ''c'' 1) else if d = ''s'' then Some (Stop ''c'' 1) else None)
      [SpritePointerDown 0, WsMessage ''p'', Tick, SpritePointerUp 0, WsMessage ''s'', WsMessage ''x'',
       WsClose, TimerFired, WsOpen]
      (mount (View 1040 600))) = 1"
  using watchers_initially_one [of
      "[SpritePointerDown 0, WsMessage ''p'', Tick, SpritePointerUp 0, WsMessage ''s'', WsMessage ''x'',
        WsClose, TimerFired, WsOpen]"
      "\<lambda>d. if d = ''p'' then Some (Play ''c'' 1) else if d = ''s'' then Some (Stop ''c'' 1) else None"
      "View 1040 600"]
  by (simp del: run.simps)

end
